theory Spec2Isabelle
  imports Main
begin

section \<open>Python values, exceptions and the JSON encoder\<close>

text \<open>
  The values that travel between the tools of \<^verbatim>\<open>src/tools/mealplan_tools.py\<close> and the
  backend fetcher. \<open>PObject n\<close> stands for an object of a class \<open>n\<close> that
  \<^verbatim>\<open>json.dumps\<close> has no encoding for (a set, a response object, ...). Strings are
  lists of code points below 256; a dictionary is the list of its items in insertion order
  (the keys of a Python dictionary are pairwise distinct, see \<open>json_value\<close>). Floating point
  numbers are not modelled.
\<close>

datatype pyval =
    PNone
  | PBool bool
  | PInt int
  | PStr string
  | PList "pyval list"
  | PDict "(string \<times> pyval) list"
  | PObject string

text \<open>
  A raised exception with the text \<^verbatim>\<open>str(e)\<close> gives for it. \<open>Exception m\<close> is an
  instance of \<^verbatim>\<open>Exception\<close> or of one of its subclasses; \<open>BaseException m\<close> is an
  instance of a class outside that hierarchy (\<^verbatim>\<open>KeyboardInterrupt\<close>,
  \<^verbatim>\<open>SystemExit\<close>, ...), which a clause \<^verbatim>\<open>except Exception\<close> does not match.
\<close>

datatype pyexc = Exception string | BaseException string

fun str_exc :: "pyexc \<Rightarrow> string" where
  "str_exc (Exception m) = m"
| "str_exc (BaseException m) = m"

fun is_Exception :: "pyexc \<Rightarrow> bool" where
  "is_Exception (Exception m) = True"
| "is_Exception (BaseException m) = False"

subsection \<open>\<^verbatim>\<open>json.dumps\<close> with its default arguments\<close>

definition hex_digit :: "nat \<Rightarrow> char" where
  "hex_digit n = (if n < 10 then char_of (48 + n) else char_of (87 + n))"

text \<open>\<^verbatim>\<open>'\\u{0:04x}'.format(n)\<close> for a code point below 256.\<close>

definition u_escape :: "nat \<Rightarrow> string" where
  "u_escape n = [CHR 0x5C, CHR ''u'', CHR ''0'', CHR ''0'', hex_digit (n div 16), hex_digit (n mod 16)]"

text \<open>
  \<^verbatim>\<open>ESCAPE_DCT\<close> and the replacement function of \<^verbatim>\<open>py_encode_basestring_ascii\<close>
  (\<^verbatim>\<open>ensure_ascii=True\<close>): the quote, the backslash and the five short escapes, then
  every character outside \<^verbatim>\<open>' '..'~'\<close> as \<^verbatim>\<open>\u00XX\<close>.
\<close>

definition escape_char :: "char \<Rightarrow> string" where
  "escape_char c =
    (if c = CHR 0x22 then [CHR 0x5C, CHR 0x22]
     else if c = CHR 0x5C then [CHR 0x5C, CHR 0x5C]
     else if c = CHR 0x0A then [CHR 0x5C, CHR ''n'']
     else if c = CHR 0x0D then [CHR 0x5C, CHR ''r'']
     else if c = CHR 0x09 then [CHR 0x5C, CHR ''t'']
     else if c = CHR 0x08 then [CHR 0x5C, CHR ''b'']
     else if c = CHR 0x0C then [CHR 0x5C, CHR ''f'']
     else if (of_char c :: nat) < 32 \<or> 126 < (of_char c :: nat) then u_escape (of_char c)
     else [c])"

definition encode_basestring_ascii :: "string \<Rightarrow> string" where
  "encode_basestring_ascii s = CHR 0x22 # concat (map escape_char s) @ [CHR 0x22]"

text \<open>\<^verbatim>\<open>int.__repr__\<close>: the decimal digits, with a minus sign for a negative number.\<close>

fun nat_repr :: "nat \<Rightarrow> string" where
  "nat_repr n = (if n < 10 then [char_of (48 + n)] else nat_repr (n div 10) @ [char_of (48 + n mod 10)])"

definition int_repr :: "int \<Rightarrow> string" where
  "int_repr i = (if i < 0 then CHR ''-'' # nat_repr (nat (- i)) else nat_repr (nat i))"

text \<open>
  The encoder walks the value depth first and left to right; the first object it cannot
  encode raises \<^verbatim>\<open>TypeError\<close>. Items are separated by \<^verbatim>\<open>', '\<close>, a key from its
  value by \<^verbatim>\<open>': '\<close>.
\<close>

definition not_serializable :: "string \<Rightarrow> pyexc" where
  "not_serializable n = Exception (''Object of type '' @ n @ '' is not JSON serializable'')"

fun json_dumps :: "pyval \<Rightarrow> pyexc + string"
  and dumps_items :: "pyval list \<Rightarrow> pyexc + string"
  and dumps_members :: "(string \<times> pyval) list \<Rightarrow> pyexc + string"
where
  "json_dumps PNone = Inr ''null''"
| "json_dumps (PBool b) = Inr (if b then ''true'' else ''false'')"
| "json_dumps (PInt i) = Inr (int_repr i)"
| "json_dumps (PStr s) = Inr (encode_basestring_ascii s)"
| "json_dumps (PList vs) =
    (case dumps_items vs of Inl e \<Rightarrow> Inl e | Inr s \<Rightarrow> Inr (''['' @ s @ '']''))"
| "json_dumps (PDict kvs) =
    (case dumps_members kvs of Inl e \<Rightarrow> Inl e | Inr s \<Rightarrow> Inr (''{'' @ s @ ''}''))"
| "json_dumps (PObject n) = Inl (not_serializable n)"
| "dumps_items [] = Inr []"
| "dumps_items (v # vs) =
    (case json_dumps v of
       Inl e \<Rightarrow> Inl e
     | Inr s \<Rightarrow>
        (if vs = [] then Inr s
         else (case dumps_items vs of Inl e \<Rightarrow> Inl e | Inr r \<Rightarrow> Inr (s @ '', '' @ r))))"
| "dumps_members [] = Inr []"
| "dumps_members (kv # kvs) =
    (case json_dumps (snd kv) of
       Inl e \<Rightarrow> Inl e
     | Inr s \<Rightarrow>
        (if kvs = [] then Inr (encode_basestring_ascii (fst kv) @ '': '' @ s)
         else (case dumps_members kvs of
                 Inl e \<Rightarrow> Inl e
               | Inr r \<Rightarrow> Inr (encode_basestring_ascii (fst kv) @ '': '' @ s @ '', '' @ r))))"

declare nat_repr.simps [simp del]

section \<open>The backend fetcher and the world around a tool call\<close>

text \<open>
  A call of an operation of the \<^verbatim>\<open>MealieFetcher\<close> object: the operation's name, the positional
  arguments and the keyword arguments in the order the call site writes them.
\<close>

datatype call = Call (op_name: string) (pos_args: "pyval list") (kw_args: "(string \<times> pyval) list")

text \<open>
  The fetcher is an external collaborator: any behaviour is possible. A behaviour maps the
  calls received so far and the current call to what that call does: it returns a value
  (\<open>Inr\<close>) or raises (\<open>Inl\<close>).
\<close>

type_synonym backend = "call list \<Rightarrow> call \<Rightarrow> pyexc + pyval"

text \<open>
  The records handed to the module-level logger. The text of
  \<^verbatim>\<open>traceback.format_exc()\<close> is not modelled: \<open>Debug_traceback e\<close> is the debug record
  \<^verbatim>\<open>{"message": "Error traceback", "traceback": ...}\<close> written while \<open>e\<close> is handled.
\<close>

datatype log_record = Info pyval | Error pyval | Debug_traceback pyexc

record world =
  calls :: "call list"
  logged :: "log_record list"

definition emit :: "log_record \<Rightarrow> world \<Rightarrow> world" where
  "emit r w = w\<lparr>logged := logged w @ [r]\<rparr>"

definition invoke :: "backend \<Rightarrow> call \<Rightarrow> world \<Rightarrow> (pyexc + pyval) \<times> world" where
  "invoke mealie c w = (mealie (calls w) c, w\<lparr>calls := calls w @ [c]\<rparr>)"

section \<open>Collaborators of the module\<close>

text \<open>
  Modelled from the spec: \<^verbatim>\<open>utils.format_error_response\<close> is imported by the module and
  is not part of the sources at hand. The specification describes it as a pure function
  from a message to the uniform error envelope, a JSON object whose \<^verbatim>\<open>error\<close> field holds
  the message.
\<close>

definition format_error_response :: "string \<Rightarrow> string" where
  "format_error_response error_message =
    ''{'' @ encode_basestring_ascii ''error'' @ '': '' @ encode_basestring_ascii error_message @ ''}''"

text \<open>
  Modelled from the spec: \<^verbatim>\<open>models.mealplan.MealPlanEntry\<close> is imported by the module and
  is not part of the sources at hand. The specification gives it the four fields below,
  \<^verbatim>\<open>date\<close> required and the others optional in the backend's create operation.
  \<^verbatim>\<open>model_dump\<close> is the dictionary of all fields, an absent field as \<^verbatim>\<open>None\<close>.
\<close>

record MealPlanEntry =
  date :: string
  recipe_id :: "string option"
  title :: "string option"
  entry_type :: "string option"

fun opt_str :: "string option \<Rightarrow> pyval" where
  "opt_str None = PNone"
| "opt_str (Some s) = PStr s"

fun opt_int :: "int option \<Rightarrow> pyval" where
  "opt_int None = PNone"
| "opt_int (Some i) = PInt i"

definition model_dump :: "MealPlanEntry \<Rightarrow> (string \<times> pyval) list" where
  "model_dump entry =
    [ (''date'', PStr (date entry)),
      (''recipe_id'', opt_str (recipe_id entry)),
      (''title'', opt_str (title entry)),
      (''entry_type'', opt_str (entry_type entry)) ]"

section \<open>The four tools of \<^verbatim>\<open>register_mealplan_tools\<close>\<close>

text \<open>
  A tool either returns its text (\<open>Inr\<close>) or lets an exception escape to its caller
  (\<open>Inl\<close>). \<open>try_except\<close> is the clause
  \<^verbatim>\<open>except Exception as e: error_msg = f"<prefix>{str(e)}"; logger.error(...);
  logger.debug(...); return format_error_response(error_msg)\<close>
  shared by the four tools, applied to the outcome of the \<^verbatim>\<open>try\<close> suite; the suite of
  a tool \<open>f\<close> is \<open>f_try\<close>.
\<close>

type_synonym tool_result = "(pyexc + string) \<times> world"

definition try_except :: "string \<Rightarrow> tool_result \<Rightarrow> tool_result" where
  "try_except prefix r =
    (case fst r of
       Inr text \<Rightarrow> (Inr text, snd r)
     | Inl e \<Rightarrow>
        (if is_Exception e then
           (let error_msg = prefix @ str_exc e in
            (Inr (format_error_response error_msg),
             emit (Debug_traceback e) (emit (Error (PDict [(''message'', PStr error_msg)])) (snd r))))
         else (Inl e, snd r)))"

text \<open>\<^verbatim>\<open>result = <backend call>; return json.dumps(result)\<close>\<close>

definition dumps_result :: "(pyexc + pyval) \<times> world \<Rightarrow> tool_result" where
  "dumps_result r = (case fst r of Inl e \<Rightarrow> (Inl e, snd r) | Inr result \<Rightarrow> (json_dumps result, snd r))"

definition get_mealplans_call :: "string option \<Rightarrow> string option \<Rightarrow> int option \<Rightarrow> int option \<Rightarrow> call" where
  "get_mealplans_call start_date end_date page per_page =
    Call ''get_mealplans'' []
      [ (''start_date'', opt_str start_date),
        (''end_date'', opt_str end_date),
        (''page'', opt_int page),
        (''per_page'', opt_int per_page) ]"

definition get_all_mealplans_try ::
  "backend \<Rightarrow> string option \<Rightarrow> string option \<Rightarrow> int option \<Rightarrow> int option \<Rightarrow> world \<Rightarrow> tool_result" where
  "get_all_mealplans_try mealie start_date end_date page per_page w =
    dumps_result
      (invoke mealie (get_mealplans_call start_date end_date page per_page)
        (emit (Info (PDict
            [ (''message'', PStr ''Fetching mealplans''),
              (''start_date'', opt_str start_date),
              (''end_date'', opt_str end_date),
              (''page'', opt_int page),
              (''per_page'', opt_int per_page) ])) w))"

definition get_all_mealplans ::
  "backend \<Rightarrow> string option \<Rightarrow> string option \<Rightarrow> int option \<Rightarrow> int option \<Rightarrow> world \<Rightarrow> tool_result" where
  "get_all_mealplans mealie start_date end_date page per_page w =
    try_except ''Error fetching mealplans: ''
      (get_all_mealplans_try mealie start_date end_date page per_page w)"

definition create_mealplan_call :: "MealPlanEntry \<Rightarrow> call" where
  "create_mealplan_call entry = Call ''create_mealplan'' [] (model_dump entry)"

definition create_mealplan_try :: "backend \<Rightarrow> MealPlanEntry \<Rightarrow> world \<Rightarrow> tool_result" where
  "create_mealplan_try mealie entry w =
    dumps_result
      (invoke mealie (create_mealplan_call entry)
        (emit (Info (PDict
            [ (''message'', PStr ''Creating mealplan entry''),
              (''entry'', PDict (model_dump entry)) ])) w))"

definition create_mealplan :: "backend \<Rightarrow> MealPlanEntry \<Rightarrow> world \<Rightarrow> tool_result" where
  "create_mealplan mealie entry w =
    try_except ''Error creating mealplan entry: '' (create_mealplan_try mealie entry w)"

text \<open>
  \<^verbatim>\<open>for entry in entries: mealie.create_mealplan(**entry.model_dump())\<close>: the loop
  drops what the backend returns and stops at the first call that raises.
\<close>

fun create_loop :: "backend \<Rightarrow> MealPlanEntry list \<Rightarrow> world \<Rightarrow> pyexc option \<times> world" where
  "create_loop mealie [] w = (None, w)"
| "create_loop mealie (entry # entries) w =
    (case invoke mealie (create_mealplan_call entry) w of
       (Inl e, w') \<Rightarrow> (Some e, w')
     | (Inr result, w') \<Rightarrow> create_loop mealie entries w')"

definition create_mealplan_bulk_try :: "backend \<Rightarrow> MealPlanEntry list \<Rightarrow> world \<Rightarrow> tool_result" where
  "create_mealplan_bulk_try mealie entries w =
    (case create_loop mealie entries
            (emit (Info (PDict
               [ (''message'', PStr ''Creating bulk mealplan entries''),
                 (''entries_count'', PInt (int (length entries))) ])) w) of
       (Some e, w') \<Rightarrow> (Inl e, w')
     | (None, w') \<Rightarrow>
         (json_dumps (PDict [(''message'', PStr ''Bulk mealplan entries created successfully'')]), w'))"

definition create_mealplan_bulk :: "backend \<Rightarrow> MealPlanEntry list \<Rightarrow> world \<Rightarrow> tool_result" where
  "create_mealplan_bulk mealie entries w =
    try_except ''Error creating bulk mealplan entries: '' (create_mealplan_bulk_try mealie entries w)"

definition get_todays_mealplan_call :: call where
  "get_todays_mealplan_call = Call ''get_todays_mealplan'' [] []"

definition get_todays_mealplan_try :: "backend \<Rightarrow> world \<Rightarrow> tool_result" where
  "get_todays_mealplan_try mealie w =
    dumps_result
      (invoke mealie get_todays_mealplan_call
        (emit (Info (PDict [(''message'', PStr (''Fetching today'' @ [CHR 0x27] @ ''s mealplan''))])) w))"

definition get_todays_mealplan :: "backend \<Rightarrow> world \<Rightarrow> tool_result" where
  "get_todays_mealplan mealie w =
    try_except (''Error fetching today'' @ [CHR 0x27] @ ''s mealplan: '') (get_todays_mealplan_try mealie w)"

section \<open>Reading JSON text back\<close>

text \<open>
  The reader against which the round trip of a payload is stated: the grammar of RFC 8259
  as \<^verbatim>\<open>json.loads\<close> reads it, on the values modelled here. White space is allowed around
  every token, every escape of the grammar is accepted in a string, a control character in
  a string is refused, an integer has no leading zero, and an object becomes a dictionary
  in which a repeated key keeps its first position and its last value. A number with a
  fraction or an exponent and an escape of a code point above 255 have no value in
  \<open>pyval\<close>: the reader gives \<open>None\<close> for them, as for a text that is not JSON.
\<close>

definition is_ws :: "char \<Rightarrow> bool" where
  "is_ws c = (c = CHR '' '' \<or> c = CHR 0x09 \<or> c = CHR 0x0A \<or> c = CHR 0x0D)"

definition skip_ws :: "string \<Rightarrow> string" where
  "skip_ws s = dropWhile is_ws s"

definition is_digit :: "char \<Rightarrow> bool" where
  "is_digit c = (48 \<le> (of_char c :: nat) \<and> (of_char c :: nat) \<le> 57)"

definition digit_val :: "char \<Rightarrow> nat" where
  "digit_val c = of_char c - 48"

definition hex_val :: "char \<Rightarrow> nat option" where
  "hex_val c =
    (let n = (of_char c :: nat) in
     if 48 \<le> n \<and> n \<le> 57 then Some (n - 48)
     else if 97 \<le> n \<and> n \<le> 102 then Some (n - 87)
     else if 65 \<le> n \<and> n \<le> 70 then Some (n - 55)
     else None)"

definition hex4 :: "char \<Rightarrow> char \<Rightarrow> char \<Rightarrow> char \<Rightarrow> nat option" where
  "hex4 a b c d =
    (case (hex_val a, hex_val b, hex_val c, hex_val d) of
       (Some x, Some y, Some z, Some u) \<Rightarrow> Some (((x * 16 + y) * 16 + z) * 16 + u)
     | _ \<Rightarrow> None)"

definition unescape :: "char \<Rightarrow> char option" where
  "unescape e =
    (if e = CHR 0x22 then Some (CHR 0x22)
     else if e = CHR 0x5C then Some (CHR 0x5C)
     else if e = CHR ''/'' then Some (CHR ''/'')
     else if e = CHR ''b'' then Some (CHR 0x08)
     else if e = CHR ''f'' then Some (CHR 0x0C)
     else if e = CHR ''n'' then Some (CHR 0x0A)
     else if e = CHR ''r'' then Some (CHR 0x0D)
     else if e = CHR ''t'' then Some (CHR 0x09)
     else None)"

definition cons_char :: "char \<Rightarrow> (string \<times> string) option \<Rightarrow> (string \<times> string) option" where
  "cons_char c r = (case r of None \<Rightarrow> None | Some (s, rest) \<Rightarrow> Some (c # s, rest))"

text \<open>The characters of a string after its opening quote, up to the closing quote.\<close>

fun scan_string :: "string \<Rightarrow> (string \<times> string) option" where
  "scan_string [] = None"
| "scan_string (c # cs) =
    (if c = CHR 0x22 then Some ([], cs)
     else if c = CHR 0x5C then
       (case cs of
          [] \<Rightarrow> None
        | e # r \<Rightarrow>
           (if e = CHR ''u'' then
              (case r of
                 a # b # c' # d # r' \<Rightarrow>
                   (case hex4 a b c' d of
                      None \<Rightarrow> None
                    | Some n \<Rightarrow> (if n < 256 then cons_char (char_of n) (scan_string r') else None))
               | _ \<Rightarrow> None)
            else
              (case unescape e of
                 None \<Rightarrow> None
               | Some x \<Rightarrow> cons_char x (scan_string r))))
     else if (of_char c :: nat) < 32 then None
     else cons_char c (scan_string cs))"

definition digits_val :: "string \<Rightarrow> nat" where
  "digits_val ds = foldl (\<lambda>a d. 10 * a + digit_val d) 0 ds"

text \<open>
  \<^verbatim>\<open>(0|[1-9][0-9]*)\<close>: the digits of a natural number and the rest of the text. A
  following \<^verbatim>\<open>.\<close>, \<^verbatim>\<open>e\<close> or \<^verbatim>\<open>E\<close> starts a fraction or an exponent, or is an error.
\<close>

definition scan_nat :: "string \<Rightarrow> (nat \<times> string) option" where
  "scan_nat s =
    (let ds = takeWhile is_digit s; rest = dropWhile is_digit s in
     if ds = [] then None
     else if hd ds = CHR ''0'' then
       (if tl ds = [] \<and> (rest = [] \<or> hd rest \<notin> set ''.eE'') then Some (0, rest) else None)
     else if rest = [] \<or> hd rest \<notin> set ''.eE'' then Some (digits_val ds, rest)
     else None)"

definition scan_int :: "string \<Rightarrow> (pyval \<times> string) option" where
  "scan_int s =
    (case s of
       [] \<Rightarrow> None
     | c # cs \<Rightarrow>
        (if c = CHR ''-'' then
           (case scan_nat cs of None \<Rightarrow> None | Some (n, rest) \<Rightarrow> Some (PInt (- int n), rest))
         else
           (case scan_nat s of None \<Rightarrow> None | Some (n, rest) \<Rightarrow> Some (PInt (int n), rest))))"

definition expect :: "string \<Rightarrow> string \<Rightarrow> string option" where
  "expect lit s = (if take (length lit) s = lit then Some (drop (length lit) s) else None)"

text \<open>\<^verbatim>\<open>d[k] = v\<close> on the items of a dictionary.\<close>

fun dict_set :: "string \<Rightarrow> pyval \<Rightarrow> (string \<times> pyval) list \<Rightarrow> (string \<times> pyval) list" where
  "dict_set k v [] = [(k, v)]"
| "dict_set k v (kv # kvs) = (if fst kv = k then (k, v) # kvs else kv # dict_set k v kvs)"

definition dict_of_pairs :: "(string \<times> pyval) list \<Rightarrow> (string \<times> pyval) list" where
  "dict_of_pairs kvs = foldl (\<lambda>d kv. dict_set (fst kv) (snd kv) d) [] kvs"

text \<open>
  The recursive descent. The first argument bounds the number of nested calls; each call
  reads at least one character before the next one, so the length of the text is enough
  (\<open>json_loads\<close>). \<open>parse_items\<close> starts at the first value of a non-empty array and
  \<open>parse_members\<close> at the first key of a non-empty object.
\<close>

fun parse_value :: "nat \<Rightarrow> string \<Rightarrow> (pyval \<times> string) option"
  and parse_items :: "nat \<Rightarrow> string \<Rightarrow> (pyval list \<times> string) option"
  and parse_members :: "nat \<Rightarrow> string \<Rightarrow> ((string \<times> pyval) list \<times> string) option"
where
  "parse_value 0 s = None"
| "parse_value (Suc n) s =
    (case s of
       [] \<Rightarrow> None
     | c # cs \<Rightarrow>
        (if c = CHR 0x22 then
           (case scan_string cs of None \<Rightarrow> None | Some (x, rest) \<Rightarrow> Some (PStr x, rest))
         else if c = CHR ''['' then
           (case expect '']'' (skip_ws cs) of
              Some rest \<Rightarrow> Some (PList [], rest)
            | None \<Rightarrow>
               (case parse_items n (skip_ws cs) of
                  None \<Rightarrow> None
                | Some (vs, rest) \<Rightarrow> Some (PList vs, rest)))
         else if c = CHR ''{'' then
           (case expect ''}'' (skip_ws cs) of
              Some rest \<Rightarrow> Some (PDict [], rest)
            | None \<Rightarrow>
               (case parse_members n (skip_ws cs) of
                  None \<Rightarrow> None
                | Some (kvs, rest) \<Rightarrow> Some (PDict (dict_of_pairs kvs), rest)))
         else if c = CHR ''n'' then
           (case expect ''ull'' cs of None \<Rightarrow> None | Some rest \<Rightarrow> Some (PNone, rest))
         else if c = CHR ''t'' then
           (case expect ''rue'' cs of None \<Rightarrow> None | Some rest \<Rightarrow> Some (PBool True, rest))
         else if c = CHR ''f'' then
           (case expect ''alse'' cs of None \<Rightarrow> None | Some rest \<Rightarrow> Some (PBool False, rest))
         else scan_int s))"
| "parse_items 0 s = None"
| "parse_items (Suc n) s =
    (case parse_value n s of
       None \<Rightarrow> None
     | Some (v, r) \<Rightarrow>
        (case expect '','' (skip_ws r) of
           Some r' \<Rightarrow>
             (case parse_items n (skip_ws r') of
                None \<Rightarrow> None
              | Some (vs, rest) \<Rightarrow> Some (v # vs, rest))
         | None \<Rightarrow>
             (case expect '']'' (skip_ws r) of
                None \<Rightarrow> None
              | Some rest \<Rightarrow> Some ([v], rest))))"
| "parse_members 0 s = None"
| "parse_members (Suc n) s =
    (case expect [CHR 0x22] s of
       None \<Rightarrow> None
     | Some cs \<Rightarrow>
        (case scan_string cs of
           None \<Rightarrow> None
         | Some (k, r) \<Rightarrow>
            (case expect '':'' (skip_ws r) of
               None \<Rightarrow> None
             | Some r1 \<Rightarrow>
                (case parse_value n (skip_ws r1) of
                   None \<Rightarrow> None
                 | Some (v, r2) \<Rightarrow>
                    (case expect '','' (skip_ws r2) of
                       Some r3 \<Rightarrow>
                         (case parse_members n (skip_ws r3) of
                            None \<Rightarrow> None
                          | Some (kvs, rest) \<Rightarrow> Some ((k, v) # kvs, rest))
                     | None \<Rightarrow>
                         (case expect ''}'' (skip_ws r2) of
                            None \<Rightarrow> None
                          | Some rest \<Rightarrow> Some ([(k, v)], rest)))))))"

definition json_loads :: "string \<Rightarrow> pyval option" where
  "json_loads s =
    (case parse_value (length s) (skip_ws s) of
       None \<Rightarrow> None
     | Some (v, rest) \<Rightarrow> (if skip_ws rest = [] then Some v else None))"

text \<open>
  The values JSON can represent: no object without an encoding, and dictionaries as Python
  has them, with pairwise distinct keys.
\<close>

fun json_value :: "pyval \<Rightarrow> bool"
  and json_values :: "pyval list \<Rightarrow> bool"
  and json_members :: "(string \<times> pyval) list \<Rightarrow> bool"
where
  "json_value PNone = True"
| "json_value (PBool b) = True"
| "json_value (PInt i) = True"
| "json_value (PStr s) = True"
| "json_value (PList vs) = json_values vs"
| "json_value (PDict kvs) = (distinct (map fst kvs) \<and> json_members kvs)"
| "json_value (PObject n) = False"
| "json_values [] = True"
| "json_values (v # vs) = (json_value v \<and> json_values vs)"
| "json_members [] = True"
| "json_members (kv # kvs) = (json_value (snd kv) \<and> json_members kvs)"

text \<open>The \<^verbatim>\<open>error\<close> field of a payload that is a JSON object holding one.\<close>

definition error_field :: "string \<Rightarrow> string option" where
  "error_field payload =
    (case json_loads payload of
       Some (PDict kvs) \<Rightarrow> (case map_of kvs ''error'' of Some (PStr m) \<Rightarrow> Some m | _ \<Rightarrow> None)
     | _ \<Rightarrow> None)"

section \<open>Test doubles\<close>

text \<open>
  Concrete inputs for evaluating the tools: an empty world, an entry that has only its
  date, a backend that returns the keyword arguments it was given, and one that does so
  except for calls whose \<^verbatim>\<open>date\<close> argument is \<open>d\<close>, on which it raises \<open>e\<close>.
\<close>

definition w0 :: world where
  "w0 = \<lparr>calls = [], logged = []\<rparr>"

definition entry_on :: "string \<Rightarrow> MealPlanEntry" where
  "entry_on d = \<lparr>date = d, recipe_id = None, title = None, entry_type = None\<rparr>"

definition echo :: backend where
  "echo h c = Inr (PDict (kw_args c))"


definition raising :: "pyexc \<Rightarrow> backend" where
  "raising e h c = Inl e"

section \<open>Basic facts about the world and the handler\<close>

lemma calls_emit: "calls (emit r w) = calls w"
  by (simp add: emit_def)

lemma logged_invoke: "logged (snd (invoke mealie c w)) = logged w"
  by (simp add: invoke_def)

lemma calls_invoke: "calls (snd (invoke mealie c w)) = calls w @ [c]"
  by (simp add: invoke_def)

lemma fst_invoke: "fst (invoke mealie c w) = mealie (calls w) c"
  by (simp add: invoke_def)

lemma snd_dumps_result: "snd (dumps_result r) = snd r"
  by (simp add: dumps_result_def split: sum.splits)

lemma calls_try_except: "calls (snd (try_except prefix r)) = calls (snd r)"
  by (simp add: try_except_def Let_def calls_emit split: sum.splits)

lemma fst_try_except_Inr: "fst r = Inr text \<Longrightarrow> fst (try_except prefix r) = Inr text"
  by (simp add: try_except_def)

lemma fst_try_except_Exception:
  "fst r = Inl (Exception m) \<Longrightarrow> fst (try_except prefix r) = Inr (format_error_response (prefix @ m))"
  by (simp add: try_except_def Let_def)

lemma fst_try_except_BaseException:
  "fst r = Inl (BaseException m) \<Longrightarrow> fst (try_except prefix r) = Inl (BaseException m)"
  by (simp add: try_except_def)

lemma create_loop_all:
  "\<forall>k<length entries. \<exists>v. mealie (calls w @ map create_mealplan_call (take k entries))
        (create_mealplan_call (entries ! k)) = Inr v \<Longrightarrow>
   fst (create_loop mealie entries w) = None \<and>
   calls (snd (create_loop mealie entries w)) = calls w @ map create_mealplan_call entries \<and>
   logged (snd (create_loop mealie entries w)) = logged w"
proof (induction entries arbitrary: w)
  case Nil
  then show ?case by simp
next
  case (Cons entry entries)
  from Cons.prems have "\<exists>v. mealie (calls w) (create_mealplan_call entry) = Inr v"
    by fastforce
  then obtain v where v: "mealie (calls w) (create_mealplan_call entry) = Inr v" ..
  let ?w = "w\<lparr>calls := calls w @ [create_mealplan_call entry]\<rparr>"
  have "\<forall>k<length entries. \<exists>v. mealie (calls ?w @ map create_mealplan_call (take k entries))
        (create_mealplan_call (entries ! k)) = Inr v"
  proof (intro allI impI)
    fix k assume "k < length entries"
    then have "Suc k < length (entry # entries)" by simp
    with Cons.prems have "\<exists>v. mealie (calls w @ map create_mealplan_call (take (Suc k) (entry # entries)))
        (create_mealplan_call ((entry # entries) ! Suc k)) = Inr v" by blast
    then show "\<exists>v. mealie (calls ?w @ map create_mealplan_call (take k entries))
        (create_mealplan_call (entries ! k)) = Inr v" by simp
  qed
  from Cons.IH [OF this] v show ?case by (simp add: invoke_def)
qed



lemma dumps_bulk_success:
  \<open>json_dumps (PDict [(''message'', PStr ''Bulk mealplan entries created successfully'')])
    = Inr ''{"message": "Bulk mealplan entries created successfully"}''\<close>
  by (simp add: encode_basestring_ascii_def escape_char_def)

section \<open>The bulk tool\<close>

text \<open>
  C6: \<^verbatim>\<open>create_mealplan_bulk\<close> on the empty list returns the fixed acknowledgement, which
  has no \<^verbatim>\<open>error\<close> field, and the backend receives no call.
\<close>

theorem create_mealplan_bulk_empty:
  \<open>fst (create_mealplan_bulk mealie [] w) = Inr ''{"message": "Bulk mealplan entries created successfully"}''
   \<and> calls (snd (create_mealplan_bulk mealie [] w)) = calls w
   \<and> error_field ''{"message": "Bulk mealplan entries created successfully"}'' = None\<close>
proof -
  have field: \<open>error_field ''{"message": "Bulk mealplan entries created successfully"}'' = None\<close>
    by code_simp
  have body: \<open>fst (create_mealplan_bulk_try mealie [] w)
      = Inr ''{"message": "Bulk mealplan entries created successfully"}''\<close>
    unfolding create_mealplan_bulk_try_def
    by (simp add: encode_basestring_ascii_def escape_char_def)
  have payload: \<open>fst (create_mealplan_bulk mealie [] w)
      = Inr ''{"message": "Bulk mealplan entries created successfully"}''\<close>
    unfolding create_mealplan_bulk_def by (rule fst_try_except_Inr [OF body])
  have trace: "calls (snd (create_mealplan_bulk mealie [] w)) = calls w"
    by (simp add: create_mealplan_bulk_def create_mealplan_bulk_try_def calls_try_except calls_emit)
  from payload trace field show ?thesis by blast
qed


lemma fst_bulk_try:
  "fst (create_mealplan_bulk_try mealie entries w) =
    (case fst (create_loop mealie entries
            (emit (Info (PDict
               [ (''message'', PStr ''Creating bulk mealplan entries''),
                 (''entries_count'', PInt (int (length entries))) ])) w)) of
       Some e \<Rightarrow> Inl e
     | None \<Rightarrow> json_dumps (PDict [(''message'', PStr ''Bulk mealplan entries created successfully'')]))"
  by (simp add: create_mealplan_bulk_try_def split: prod.splits option.splits)

lemma snd_bulk_try:
  "snd (create_mealplan_bulk_try mealie entries w) =
    snd (create_loop mealie entries
            (emit (Info (PDict
               [ (''message'', PStr ''Creating bulk mealplan entries''),
                 (''entries_count'', PInt (int (length entries))) ])) w))"
  by (simp add: create_mealplan_bulk_try_def split: prod.splits option.splits)

text \<open>
  C7: when every create call of the loop returns, whatever it returns and however many
  entries there are, the tool returns the serialization of the fixed object and the backend
  has received one create call per entry, in order.
\<close>

theorem create_mealplan_bulk_success:
  assumes "\<forall>k<length entries. \<exists>v. mealie (calls w @ map create_mealplan_call (take k entries))
        (create_mealplan_call (entries ! k)) = Inr v"
  shows \<open>fst (create_mealplan_bulk mealie entries w)
      = Inr ''{"message": "Bulk mealplan entries created successfully"}''
    \<and> fst (create_mealplan_bulk mealie entries w)
      = json_dumps (PDict [(''message'', PStr ''Bulk mealplan entries created successfully'')])
    \<and> calls (snd (create_mealplan_bulk mealie entries w)) = calls w @ map create_mealplan_call entries\<close>
proof -
  let ?w = "emit (Info (PDict [(''message'', PStr ''Creating bulk mealplan entries''),
                 (''entries_count'', PInt (int (length entries)))])) w"
  from assms have "\<forall>k<length entries. \<exists>v. mealie (calls ?w @ map create_mealplan_call (take k entries))
        (create_mealplan_call (entries ! k)) = Inr v"
    by (simp add: calls_emit)
  from create_loop_all [OF this]
  have loop: "fst (create_loop mealie entries ?w) = None"
    and trace: "calls (snd (create_loop mealie entries ?w)) = calls w @ map create_mealplan_call entries"
    by (simp_all add: calls_emit)
  have body: \<open>fst (create_mealplan_bulk_try mealie entries w)
      = Inr ''{"message": "Bulk mealplan entries created successfully"}''\<close>
    using loop by (simp add: fst_bulk_try encode_basestring_ascii_def escape_char_def)
  have payload: \<open>fst (create_mealplan_bulk mealie entries w)
      = Inr ''{"message": "Bulk mealplan entries created successfully"}''\<close>
    unfolding create_mealplan_bulk_def by (rule fst_try_except_Inr [OF body])
  have sent: "calls (snd (create_mealplan_bulk mealie entries w)) = calls w @ map create_mealplan_call entries"
    using trace by (simp add: create_mealplan_bulk_def calls_try_except snd_bulk_try)
  from payload sent show ?thesis unfolding dumps_bulk_success by simp
qed

theorem create_mealplan_bulk_success_witness:
  \<open>fst (create_mealplan_bulk echo [entry_on ''2024-03-01'', entry_on ''2024-03-02''] w0)
      = Inr ''{"message": "Bulk mealplan entries created successfully"}''
    \<and> calls (snd (create_mealplan_bulk echo [entry_on ''2024-03-01'', entry_on ''2024-03-02''] w0))
      = [create_mealplan_call (entry_on ''2024-03-01''), create_mealplan_call (entry_on ''2024-03-02'')]\<close>
proof -
  have "\<forall>k<length [entry_on ''2024-03-01'', entry_on ''2024-03-02''].
      \<exists>v. echo (calls w0 @ map create_mealplan_call (take k [entry_on ''2024-03-01'', entry_on ''2024-03-02'']))
        (create_mealplan_call ([entry_on ''2024-03-01'', entry_on ''2024-03-02''] ! k)) = Inr v"
    by (simp add: echo_def)
  from create_mealplan_bulk_success [OF this] show ?thesis by (simp add: w0_def)
qed




section \<open>The tools that make one backend call\<close>

lemma fst_dumps_result:
  "fst (dumps_result r) = (case fst r of Inl e \<Rightarrow> Inl e | Inr result \<Rightarrow> json_dumps result)"
  by (simp add: dumps_result_def split: sum.splits)

lemma fst_get_all_mealplans_try:
  "fst (get_all_mealplans_try mealie start_date end_date page per_page w) =
    (case mealie (calls w) (get_mealplans_call start_date end_date page per_page) of
       Inl e \<Rightarrow> Inl e | Inr result \<Rightarrow> json_dumps result)"
  by (simp add: get_all_mealplans_try_def fst_dumps_result fst_invoke calls_emit)

lemma calls_get_all_mealplans:
  "calls (snd (get_all_mealplans mealie start_date end_date page per_page w)) =
    calls w @ [get_mealplans_call start_date end_date page per_page]"
  by (simp add: get_all_mealplans_def get_all_mealplans_try_def calls_try_except snd_dumps_result
      calls_invoke calls_emit)

lemma fst_create_mealplan_try:
  "fst (create_mealplan_try mealie entry w) =
    (case mealie (calls w) (create_mealplan_call entry) of
       Inl e \<Rightarrow> Inl e | Inr result \<Rightarrow> json_dumps result)"
  by (simp add: create_mealplan_try_def fst_dumps_result fst_invoke calls_emit)

lemma calls_create_mealplan:
  "calls (snd (create_mealplan mealie entry w)) = calls w @ [create_mealplan_call entry]"
  by (simp add: create_mealplan_def create_mealplan_try_def calls_try_except snd_dumps_result
      calls_invoke calls_emit)

lemma fst_get_todays_mealplan_try:
  "fst (get_todays_mealplan_try mealie w) =
    (case mealie (calls w) get_todays_mealplan_call of
       Inl e \<Rightarrow> Inl e | Inr result \<Rightarrow> json_dumps result)"
  by (simp add: get_todays_mealplan_try_def fst_dumps_result fst_invoke calls_emit)

lemma calls_get_todays_mealplan:
  "calls (snd (get_todays_mealplan mealie w)) = calls w @ [get_todays_mealplan_call]"
  by (simp add: get_todays_mealplan_def get_todays_mealplan_try_def calls_try_except snd_dumps_result
      calls_invoke calls_emit)

text \<open>
  C8: the one call \<^verbatim>\<open>get_todays_mealplan\<close> sends to the backend is the today operation
  with an empty list of positional arguments and an empty list of keyword arguments.
\<close>

theorem get_todays_mealplan_no_arguments:
  "calls (snd (get_todays_mealplan mealie w)) = calls w @ [Call ''get_todays_mealplan'' [] []]"
  by (simp add: calls_get_todays_mealplan get_todays_mealplan_call_def)

text \<open>
  C9: whatever the backend does, returning or raising, an invocation of
  \<^verbatim>\<open>get_all_mealplans\<close>, \<^verbatim>\<open>create_mealplan\<close> or \<^verbatim>\<open>get_todays_mealplan\<close> adds exactly one
  call to those the backend has received, and it is a call of the tool's own backend
  operation.
\<close>

theorem one_backend_call_per_invocation:
  "(\<exists>c. calls (snd (get_all_mealplans mealie start_date end_date page per_page w)) = calls w @ [c]
        \<and> op_name c = ''get_mealplans'')
   \<and> (\<exists>c. calls (snd (create_mealplan mealie entry w)) = calls w @ [c]
        \<and> op_name c = ''create_mealplan'')
   \<and> (\<exists>c. calls (snd (get_todays_mealplan mealie w)) = calls w @ [c]
        \<and> op_name c = ''get_todays_mealplan'')"
  by (simp add: calls_get_all_mealplans calls_create_mealplan calls_get_todays_mealplan
      get_mealplans_call_def create_mealplan_call_def get_todays_mealplan_call_def)

text \<open>
  C3: the call \<^verbatim>\<open>create_mealplan\<close> sends to the backend carries the four fields of the
  entry as keyword arguments with the values they have in the entry; an optional field
  that is absent is sent as \<^verbatim>\<open>None\<close>, not as a string or a number.
\<close>

theorem create_mealplan_forwards_fields:
  "calls (snd (create_mealplan mealie entry w)) = calls w @
     [Call ''create_mealplan'' []
        [ (''date'', PStr (date entry)),
          (''recipe_id'', case recipe_id entry of None \<Rightarrow> PNone | Some s \<Rightarrow> PStr s),
          (''title'', case title entry of None \<Rightarrow> PNone | Some s \<Rightarrow> PStr s),
          (''entry_type'', case entry_type entry of None \<Rightarrow> PNone | Some s \<Rightarrow> PStr s) ]]"
  by (simp add: calls_create_mealplan create_mealplan_call_def model_dump_def split: option.splits)

text \<open>
  C10: \<^verbatim>\<open>get_all_mealplans\<close> sends the values of its four parameters to the backend as
  they are, whatever they are, and when the backend returns a value that \<^verbatim>\<open>json.dumps\<close>
  encodes, the tool returns that text: no parameter value makes the tool fail by itself.
\<close>

theorem get_all_mealplans_no_validation:
  "calls (snd (get_all_mealplans mealie start_date end_date page per_page w)) = calls w @
     [Call ''get_mealplans'' []
        [ (''start_date'', case start_date of None \<Rightarrow> PNone | Some s \<Rightarrow> PStr s),
          (''end_date'', case end_date of None \<Rightarrow> PNone | Some s \<Rightarrow> PStr s),
          (''page'', case page of None \<Rightarrow> PNone | Some i \<Rightarrow> PInt i),
          (''per_page'', case per_page of None \<Rightarrow> PNone | Some i \<Rightarrow> PInt i) ]]
   \<and> (mealie (calls w) (get_mealplans_call start_date end_date page per_page) = Inr result
        \<and> json_dumps result = Inr payload
      \<longrightarrow> fst (get_all_mealplans mealie start_date end_date page per_page w) = Inr payload)"
proof -
  have "fst (get_all_mealplans mealie start_date end_date page per_page w) = Inr payload"
    if "mealie (calls w) (get_mealplans_call start_date end_date page per_page) = Inr result"
      and "json_dumps result = Inr payload"
    unfolding get_all_mealplans_def
    by (rule fst_try_except_Inr) (simp add: fst_get_all_mealplans_try that)
  then show ?thesis
    by (simp add: calls_get_all_mealplans get_mealplans_call_def split: option.splits)
qed

theorem get_all_mealplans_no_validation_witness:
  \<open>calls (snd (get_all_mealplans echo (Some ''not a date'') (Some ''2024-13-45'') (Some 0) (Some (- 5)) w0))
      = [Call ''get_mealplans'' []
          [ (''start_date'', PStr ''not a date''), (''end_date'', PStr ''2024-13-45''),
            (''page'', PInt 0), (''per_page'', PInt (- 5)) ]]
    \<and> fst (get_all_mealplans echo (Some ''not a date'') (Some ''2024-13-45'') (Some 0) (Some (- 5)) w0)
      = Inr ''{"start_date": "not a date", "end_date": "2024-13-45", "page": 0, "per_page": -5}''\<close>
proof -
  have dumps: \<open>json_dumps (PDict [ (''start_date'', PStr ''not a date''), (''end_date'', PStr ''2024-13-45''),
            (''page'', PInt 0), (''per_page'', PInt (- 5)) ])
      = Inr ''{"start_date": "not a date", "end_date": "2024-13-45", "page": 0, "per_page": -5}''\<close>
    by code_simp
  have returns: "echo (calls w0) (get_mealplans_call (Some ''not a date'') (Some ''2024-13-45'') (Some 0) (Some (- 5)))
      = Inr (PDict [ (''start_date'', PStr ''not a date''), (''end_date'', PStr ''2024-13-45''),
            (''page'', PInt 0), (''per_page'', PInt (- 5)) ])"
    by (simp add: echo_def get_mealplans_call_def)
  note general = get_all_mealplans_no_validation
    [of echo "Some ''not a date''" "Some ''2024-13-45''" "Some 0" "Some (- 5)" w0
      "PDict [ (''start_date'', PStr ''not a date''), (''end_date'', PStr ''2024-13-45''),
            (''page'', PInt 0), (''per_page'', PInt (- 5)) ]"
      \<open>''{"start_date": "not a date", "end_date": "2024-13-45", "page": 0, "per_page": -5}''\<close>]
  from general returns dumps
  have payload: \<open>fst (get_all_mealplans echo (Some ''not a date'') (Some ''2024-13-45'') (Some 0) (Some (- 5)) w0)
      = Inr ''{"start_date": "not a date", "end_date": "2024-13-45", "page": 0, "per_page": -5}''\<close>
    by blast
  from general
  have sent: "calls (snd (get_all_mealplans echo (Some ''not a date'') (Some ''2024-13-45'') (Some 0) (Some (- 5)) w0))
      = [Call ''get_mealplans'' []
          [ (''start_date'', PStr ''not a date''), (''end_date'', PStr ''2024-13-45''),
            (''page'', PInt 0), (''per_page'', PInt (- 5)) ]]"
    by (simp add: w0_def)
  from sent payload show ?thesis by blast
qed

section \<open>Reading back what the encoder wrote\<close>


lemma skip_ws_Cons: "\<not> is_ws c \<Longrightarrow> skip_ws (c # s) = c # s"
  by (simp add: skip_ws_def)

lemma skip_ws_space: "skip_ws (CHR '' '' # s) = skip_ws s"
  by (simp add: skip_ws_def is_ws_def)

lemma skip_ws_Nil: "skip_ws [] = []"
  by (simp add: skip_ws_def)

lemma hex_val_hex_digit: "d < 16 \<Longrightarrow> hex_val (hex_digit d) = Some d"
  by (simp add: hex_val_def hex_digit_def Let_def)

lemma hex4_u_escape:
  "n < 256 \<Longrightarrow> hex4 (CHR ''0'') (CHR ''0'') (hex_digit (n div 16)) (hex_digit (n mod 16)) = Some n"
proof -
  assume n: "n < 256"
  then have "n div 16 < 16" by simp
  then have hi: "hex_val (hex_digit (n div 16)) = Some (n div 16)" by (rule hex_val_hex_digit)
  have lo: "hex_val (hex_digit (n mod 16)) = Some (n mod 16)" by (rule hex_val_hex_digit) simp
  have zero: "hex_val (CHR ''0'') = Some 0" by (simp add: hex_val_def)
  show ?thesis by (simp add: hex4_def hi lo zero)
qed

lemma scan_string_plain:
  "c \<noteq> CHR 0x22 \<Longrightarrow> c \<noteq> CHR 0x5C \<Longrightarrow> \<not> (of_char c :: nat) < 32 \<Longrightarrow>
    scan_string (c # r) = cons_char c (scan_string r)"
  by simp

lemma scan_string_short:
  "unescape e = Some x \<Longrightarrow> e \<noteq> CHR ''u'' \<Longrightarrow>
    scan_string (CHR 0x5C # e # r) = cons_char x (scan_string r)"
  by simp

lemma scan_string_u_escape:
  "scan_string (u_escape (of_char c) @ r) = cons_char c (scan_string r)"
proof -
  have "hex4 (CHR ''0'') (CHR ''0'') (hex_digit (of_char c div 16)) (hex_digit (of_char c mod 16))
      = Some (of_char c)"
    by (rule hex4_u_escape) simp
  then show ?thesis by (simp add: u_escape_def)
qed

lemma scan_string_escape_char:
  "scan_string (escape_char c @ r) = cons_char c (scan_string r)"
  unfolding escape_char_def
  by (simp add: scan_string_u_escape scan_string_short unescape_def del: scan_string.simps)
    (simp add: scan_string_plain del: scan_string.simps)

lemma scan_string_escaped:
  "scan_string (concat (map escape_char s) @ CHR 0x22 # rest) = Some (s, rest)"
proof (induction s)
  case Nil
  show ?case by simp
next
  case (Cons c s)
  have "scan_string (concat (map escape_char (c # s)) @ CHR 0x22 # rest)
      = scan_string (escape_char c @ (concat (map escape_char s) @ CHR 0x22 # rest))"
    by simp
  also have "\<dots> = cons_char c (scan_string (concat (map escape_char s) @ CHR 0x22 # rest))"
    by (rule scan_string_escape_char)
  also have "\<dots> = Some (c # s, rest)"
    by (simp add: Cons.IH cons_char_def)
  finally show ?case .
qed

lemma scan_encoded_string:
  "encode_basestring_ascii s @ rest = CHR 0x22 # concat (map escape_char s) @ CHR 0x22 # rest"
  by (simp add: encode_basestring_ascii_def)

lemma char_of_48: "char_of (48::nat) = CHR ''0''"
  by code_simp

lemma is_digit_char_of: "d < 10 \<Longrightarrow> is_digit (char_of (48 + d :: nat))"
  by (simp add: is_digit_def)

lemma digit_val_char_of: "d < 10 \<Longrightarrow> digit_val (char_of (48 + d :: nat)) = d"
  by (simp add: digit_val_def)

lemma nat_repr_digits: "\<forall>c \<in> set (nat_repr n). is_digit c"
proof (induction n rule: nat_repr.induct)
  case (1 n)
  show ?case
  proof (cases "n < 10")
    case True
    then show ?thesis by (simp add: nat_repr.simps [of n] is_digit_char_of)
  next
    case False
    with 1 show ?thesis by (simp add: nat_repr.simps [of n] is_digit_char_of)
  qed
qed

lemma nat_repr_not_Nil: "nat_repr n \<noteq> []"
  by (simp add: nat_repr.simps [of n])

lemma digits_val_snoc: "digits_val (ds @ [d]) = 10 * digits_val ds + digit_val d"
  by (simp add: digits_val_def)

lemma digits_val_nat_repr: "digits_val (nat_repr n) = n"
proof (induction n rule: nat_repr.induct)
  case (1 n)
  show ?case
  proof (cases "n < 10")
    case True
    then show ?thesis by (simp add: nat_repr.simps [of n] digits_val_def digit_val_char_of)
  next
    case False
    with 1 have "digits_val (nat_repr (n div 10)) = n div 10" by simp
    with False show ?thesis
      by (simp add: nat_repr.simps [of n] digits_val_snoc digit_val_char_of)
  qed
qed

lemma hd_nat_repr_zero: "hd (nat_repr n) = CHR ''0'' \<Longrightarrow> n = 0"
proof (induction n rule: nat_repr.induct)
  case (1 n)
  show ?case
  proof (cases "n < 10")
    case True
    with 1(2) have "char_of (48 + n) = (char_of (48::nat) :: char)"
      by (simp add: nat_repr.simps [of n] char_of_48)
    then have "(of_char (char_of (48 + n) :: char) :: nat) = of_char (char_of (48::nat) :: char)"
      by simp
    then have "(48 + n) mod 256 = (48::nat)" by simp
    with True show ?thesis by simp
  next
    case False
    with 1(2) have "hd (nat_repr (n div 10)) = CHR ''0''"
      by (simp add: nat_repr.simps [of n] nat_repr_not_Nil)
    with 1(1) False have "n div 10 = 0" by simp
    with False show ?thesis by simp
  qed
qed

lemma nat_repr_zero: "nat_repr 0 = ''0''"
  by (simp add: nat_repr.simps [of 0] char_of_48)

lemma delimiter_not_digit:
  "rest = [] \<or> hd rest \<in> set '',]}'' \<Longrightarrow> takeWhile is_digit rest = [] \<and> dropWhile is_digit rest = rest"
  by (cases rest) (auto simp: is_digit_def)

lemma delimiter_not_fraction:
  "rest = [] \<or> hd rest \<in> set '',]}'' \<Longrightarrow> rest = [] \<or> hd rest \<notin> set ''.eE''"
  by auto

lemma digits_then_delimiter:
  assumes "rest = [] \<or> hd rest \<in> set '',]}''" and "\<forall>c \<in> set ds. is_digit c"
  shows "takeWhile is_digit (ds @ rest) = ds" and "dropWhile is_digit (ds @ rest) = rest"
  using assms delimiter_not_digit [of rest] by (simp_all add: takeWhile_append2 dropWhile_append2)

lemma scan_nat_repr:
  assumes "rest = [] \<or> hd rest \<in> set '',]}''"
  shows "scan_nat (nat_repr n @ rest) = Some (n, rest)"
proof -
  have ds: "takeWhile is_digit (nat_repr n @ rest) = nat_repr n"
    and rs: "dropWhile is_digit (nat_repr n @ rest) = rest"
    using digits_then_delimiter [OF assms nat_repr_digits] by simp_all
  have frac: "rest = [] \<or> hd rest \<notin> set ''.eE''"
    using assms by (rule delimiter_not_fraction)
  show ?thesis
  proof (cases "hd (nat_repr n) = CHR ''0''")
    case True
    then have "n = 0" by (rule hd_nat_repr_zero)
    with frac show ?thesis
      unfolding scan_nat_def ds rs by (simp add: nat_repr_zero Let_def)
  next
    case False
    with frac show ?thesis
      unfolding scan_nat_def ds rs by (simp add: nat_repr_not_Nil digits_val_nat_repr Let_def)
  qed
qed

lemma hd_nat_repr_digit: "is_digit (hd (nat_repr n))"
  using nat_repr_digits [of n] nat_repr_not_Nil [of n] by (cases "nat_repr n") simp_all

lemma scan_int_repr:
  assumes "rest = [] \<or> hd rest \<in> set '',]}''"
  shows "scan_int (int_repr i @ rest) = Some (PInt i, rest)"
proof (cases "i < 0")
  case True
  then show ?thesis
    by (simp add: scan_int_def int_repr_def scan_nat_repr [OF assms])
next
  case False
  obtain c cs where repr: "nat_repr (nat i) = c # cs"
    using nat_repr_not_Nil [of "nat i"] by (cases "nat_repr (nat i)") auto
  have "is_digit c" using hd_nat_repr_digit [of "nat i"] repr by simp
  then have minus: "c \<noteq> CHR ''-''" by (auto simp: is_digit_def)
  have "scan_nat ((c # cs) @ rest) = Some (nat i, rest)"
    using scan_nat_repr [OF assms, of "nat i"] repr by simp
  with False minus show ?thesis
    by (simp add: scan_int_def int_repr_def repr)
qed

lemma int_repr_first:
  "\<exists>c cs. int_repr i = c # cs \<and> (c = CHR ''-'' \<or> is_digit c)"
proof (cases "i < 0")
  case True
  then show ?thesis by (simp add: int_repr_def)
next
  case False
  obtain c cs where repr: "nat_repr (nat i) = c # cs"
    using nat_repr_not_Nil [of "nat i"] by (cases "nat_repr (nat i)") auto
  have "is_digit c" using hd_nat_repr_digit [of "nat i"] repr by simp
  with False repr show ?thesis by (simp add: int_repr_def)
qed

text \<open>The first character of an encoded value starts a value: it is no white space and
  does not close an array.\<close>

lemma json_dumps_first:
  "json_dumps v = Inr t \<Longrightarrow> \<exists>c cs. t = c # cs \<and> \<not> is_ws c \<and> c \<noteq> CHR '']''"
proof (cases v)
  case (PInt i)
  assume "json_dumps v = Inr t"
  with PInt have t: "t = int_repr i" by simp
  from int_repr_first [of i] obtain c cs where "int_repr i = c # cs" and "c = CHR ''-'' \<or> is_digit c"
    by blast
  with t show ?thesis by (auto simp: is_ws_def is_digit_def)
qed (auto simp: is_ws_def encode_basestring_ascii_def split: sum.splits)

lemma dumps_items_first:
  "dumps_items vs = Inr t \<Longrightarrow> vs \<noteq> [] \<Longrightarrow> \<exists>c cs. t = c # cs \<and> \<not> is_ws c \<and> c \<noteq> CHR '']''"
proof (cases vs)
  case Nil
  assume "vs \<noteq> []"
  with Nil show ?thesis by simp
next
  case (Cons v vs')
  assume t: "dumps_items vs = Inr t"
  with Cons obtain s where s: "json_dumps v = Inr s"
    by (cases "json_dumps v") auto
  from json_dumps_first [OF s] obtain c cs where c: "s = c # cs" "\<not> is_ws c" "c \<noteq> CHR '']''"
    by blast
  from t Cons s c show ?thesis by (auto split: sum.splits if_splits)
qed

lemma dumps_members_first:
  "dumps_members kvs = Inr t \<Longrightarrow> kvs \<noteq> [] \<Longrightarrow> \<exists>cs. t = CHR 0x22 # cs"
  by (cases kvs) (auto simp: encode_basestring_ascii_def split: sum.splits if_splits)

lemma skip_ws_first: "t = c # cs \<Longrightarrow> \<not> is_ws c \<Longrightarrow> skip_ws (t @ r) = t @ r"
  by (simp add: skip_ws_def)

lemma expect_first: "t = c # cs \<Longrightarrow> c \<noteq> d \<Longrightarrow> expect [d] (t @ r) = None"
  by (simp add: expect_def)

lemma parse_value_null: "parse_value (Suc n) (''null'' @ rest) = Some (PNone, rest)"
  by (simp add: expect_def)

lemma parse_value_true: "parse_value (Suc n) (''true'' @ rest) = Some (PBool True, rest)"
  by (simp add: expect_def)

lemma parse_value_false: "parse_value (Suc n) (''false'' @ rest) = Some (PBool False, rest)"
  by (simp add: expect_def)

lemma parse_value_int:
  assumes "rest = [] \<or> hd rest \<in> set '',]}''"
  shows "parse_value (Suc n) (int_repr i @ rest) = Some (PInt i, rest)"
proof -
  from int_repr_first [of i] obtain c cs where repr: "int_repr i = c # cs"
    and c: "c = CHR ''-'' \<or> is_digit c" by blast
  from c have "c \<noteq> CHR 0x22" "c \<noteq> CHR ''[''" "c \<noteq> CHR ''{''" "c \<noteq> CHR ''n''"
    "c \<noteq> CHR ''t''" "c \<noteq> CHR ''f''"
    by (auto simp: is_digit_def)
  then have "parse_value (Suc n) ((c # cs) @ rest) = scan_int ((c # cs) @ rest)"
    by simp
  then show ?thesis
    using scan_int_repr [OF assms, of i] by (simp add: repr)
qed

lemma parse_value_str:
  "parse_value (Suc n) (encode_basestring_ascii s @ rest) = Some (PStr s, rest)"
  by (simp add: scan_encoded_string scan_string_escaped del: scan_string.simps)

lemma parse_value_empty_list: "parse_value (Suc n) (''[]'' @ rest) = Some (PList [], rest)"
  by (simp add: expect_def skip_ws_def is_ws_def)

lemma parse_value_list:
  "parse_items n t = Some (vs, rest) \<Longrightarrow> skip_ws t = t \<Longrightarrow> expect '']'' t = None \<Longrightarrow>
    parse_value (Suc n) (CHR ''['' # t) = Some (PList vs, rest)"
  by simp

lemma parse_value_empty_dict: "parse_value (Suc n) (''{}'' @ rest) = Some (PDict [], rest)"
  by (simp add: expect_def skip_ws_def is_ws_def)

lemma parse_value_dict:
  "parse_members n t = Some (kvs, rest) \<Longrightarrow> skip_ws t = t \<Longrightarrow> expect ''}'' t = None \<Longrightarrow>
    parse_value (Suc n) (CHR ''{'' # t) = Some (PDict (dict_of_pairs kvs), rest)"
  by simp

lemma parse_items_last:
  "parse_value n t = Some (v, CHR '']'' # rest) \<Longrightarrow> parse_items (Suc n) t = Some ([v], rest)"
  by (simp add: expect_def skip_ws_def is_ws_def)

lemma parse_items_more:
  "parse_value n t = Some (v, '', '' @ r) \<Longrightarrow> skip_ws r = r \<Longrightarrow> parse_items n r = Some (vs, rest) \<Longrightarrow>
    parse_items (Suc n) t = Some (v # vs, rest)"
  by (simp add: expect_def skip_ws_def is_ws_def)

lemma parse_members_key:
  "parse_members (Suc n) (encode_basestring_ascii k @ CHR '':'' # CHR '' '' # t) =
    (case parse_value n (skip_ws t) of
       None \<Rightarrow> None
     | Some (v, r2) \<Rightarrow>
        (case expect '','' (skip_ws r2) of
           Some r3 \<Rightarrow>
             (case parse_members n (skip_ws r3) of
                None \<Rightarrow> None
              | Some (kvs, rest) \<Rightarrow> Some ((k, v) # kvs, rest))
         | None \<Rightarrow>
             (case expect ''}'' (skip_ws r2) of
                None \<Rightarrow> None
              | Some rest \<Rightarrow> Some ([(k, v)], rest))))"
proof -
  have scan: "scan_string (concat (map escape_char k) @ CHR 0x22 # CHR '':'' # CHR '' '' # t)
      = Some (k, CHR '':'' # CHR '' '' # t)"
    by (rule scan_string_escaped)
  have colon: "skip_ws (CHR '':'' # CHR '' '' # t) = CHR '':'' # CHR '' '' # t"
    by (simp add: skip_ws_def is_ws_def)
  show ?thesis
    by (simp add: expect_def encode_basestring_ascii_def scan colon skip_ws_space
        del: scan_string.simps)
qed

lemma parse_members_last:
  "parse_value n t = Some (v, CHR ''}'' # rest) \<Longrightarrow> skip_ws t = t \<Longrightarrow>
    parse_members (Suc n) (encode_basestring_ascii k @ CHR '':'' # CHR '' '' # t) = Some ([(k, v)], rest)"
  by (simp add: parse_members_key expect_def is_ws_def skip_ws_Cons del: parse_members.simps)

lemma parse_members_more:
  "parse_value n t = Some (v, '', '' @ r) \<Longrightarrow> skip_ws t = t \<Longrightarrow> skip_ws r = r \<Longrightarrow>
    parse_members n r = Some (kvs, rest) \<Longrightarrow>
    parse_members (Suc n) (encode_basestring_ascii k @ CHR '':'' # CHR '' '' # t) = Some ((k, v) # kvs, rest)"
  by (simp add: parse_members_key expect_def is_ws_def skip_ws_Cons skip_ws_space del: parse_members.simps)

lemma dict_set_fresh: "k \<notin> fst ` set d \<Longrightarrow> dict_set k v d = d @ [(k, v)]"
  by (induction d) auto

lemma foldl_dict_set:
  "distinct (map fst (d @ kvs)) \<Longrightarrow>
    foldl (\<lambda>d kv. dict_set (fst kv) (snd kv) d) d kvs = d @ kvs"
proof (induction kvs arbitrary: d)
  case Nil
  show ?case by simp
next
  case (Cons kv kvs)
  from Cons.prems have fresh: "fst kv \<notin> fst ` set d" by auto
  from Cons.prems have "distinct (map fst ((d @ [kv]) @ kvs))" by simp
  from Cons.IH [OF this] show ?case by (simp add: dict_set_fresh [OF fresh])
qed

lemma dict_of_pairs_distinct: "distinct (map fst kvs) \<Longrightarrow> dict_of_pairs kvs = kvs"
  using foldl_dict_set [of "[]" kvs] by (simp add: dict_of_pairs_def)

text \<open>
  Reading what the encoder wrote, followed by any text that starts with a delimiter,
  gives the value back and stops at the delimiter, when the bound is at least the length
  of what was written.
\<close>

lemma parse_dumps:
  "json_value v \<Longrightarrow> json_dumps v = Inr t \<Longrightarrow> length t \<le> n \<Longrightarrow>
     rest = [] \<or> hd rest \<in> set '',]}'' \<Longrightarrow> parse_value n (t @ rest) = Some (v, rest)"
  and "vs \<noteq> [] \<Longrightarrow> json_values vs \<Longrightarrow> dumps_items vs = Inr t \<Longrightarrow> length t < n \<Longrightarrow>
     parse_items n (t @ CHR '']'' # rest) = Some (vs, rest)"
  and "kvs \<noteq> [] \<Longrightarrow> json_members kvs \<Longrightarrow> dumps_members kvs = Inr t \<Longrightarrow> length t < n \<Longrightarrow>
     parse_members n (t @ CHR ''}'' # rest) = Some (kvs, rest)"
proof (induction v and vs and kvs arbitrary: t n rest and t n rest and t n rest
    rule: json_dumps_dumps_items_dumps_members.induct)
  case 1
  then have t: "t = ''null''" by auto
  with 1 obtain m where n: "n = Suc m" by (cases n) auto
  show ?case unfolding t n by (rule parse_value_null)
next
  case (2 b)
  show ?case
  proof (cases b)
    case True
    with 2 have t: "t = ''true''" by auto
    with 2 obtain m where n: "n = Suc m" by (cases n) auto
    from True parse_value_true [of m rest] show ?thesis unfolding t n
      by (simp del: parse_value.simps)
  next
    case False
    with 2 have t: "t = ''false''" by auto
    with 2 obtain m where n: "n = Suc m" by (cases n) auto
    from False parse_value_false [of m rest] show ?thesis unfolding t n
      by (simp del: parse_value.simps)
  qed
next
  case (3 i)
  then have t: "t = int_repr i" by auto
  from int_repr_first [of i] have "int_repr i \<noteq> []" by auto
  with 3 t obtain m where n: "n = Suc m" by (cases n) auto
  show ?case unfolding t n using "3.prems"(4) by (rule parse_value_int)
next
  case (4 s)
  then have t: "t = encode_basestring_ascii s" by auto
  with 4 obtain m where n: "n = Suc m" by (cases n) (auto simp: encode_basestring_ascii_def)
  show ?case unfolding t n by (rule parse_value_str)
next
  case (5 vs)
  show ?case
  proof (cases "vs = []")
    case True
    with 5 have t: "t = ''[]''" by auto
    with 5 obtain m where n: "n = Suc m" by (cases n) auto
    show ?thesis unfolding t n True by (rule parse_value_empty_list)
  next
    case False
    from "5.prems" obtain s where s: "dumps_items vs = Inr s" and t: "t = CHR ''['' # s @ '']''"
      by (cases "dumps_items vs") auto
    from "5.prems" t obtain m where n: "n = Suc m" and m: "length s < m" by (cases n) auto
    from "5.prems" have vs: "json_values vs" by simp
    have items: "parse_items m (s @ CHR '']'' # rest) = Some (vs, rest)"
      by (rule "5.IH" [OF False vs s m])
    from dumps_items_first [OF s False] obtain c cs where c: "s = c # cs" "\<not> is_ws c" "c \<noteq> CHR '']''"
      by blast
    have ws: "skip_ws (s @ CHR '']'' # rest) = s @ CHR '']'' # rest"
      using c(1,2) by (rule skip_ws_first)
    have close: "expect '']'' (s @ CHR '']'' # rest) = None"
      using c(1,3) by (rule expect_first)
    from parse_value_list [OF items ws close] show ?thesis by (simp add: t n del: parse_value.simps parse_items.simps parse_members.simps)
  qed
next
  case (6 kvs)
  show ?case
  proof (cases "kvs = []")
    case True
    with 6 have t: "t = ''{}''" by auto
    with 6 obtain m where n: "n = Suc m" by (cases n) auto
    show ?thesis unfolding t n True by (rule parse_value_empty_dict)
  next
    case False
    from "6.prems" obtain s where s: "dumps_members kvs = Inr s" and t: "t = CHR ''{'' # s @ ''}''"
      by (cases "dumps_members kvs") auto
    from "6.prems" t obtain m where n: "n = Suc m" and m: "length s < m" by (cases n) auto
    from "6.prems" have kvs: "json_members kvs" and keys: "distinct (map fst kvs)" by simp_all
    have members: "parse_members m (s @ CHR ''}'' # rest) = Some (kvs, rest)"
      by (rule "6.IH" [OF False kvs s m])
    from dumps_members_first [OF s False] obtain cs where c: "s = CHR 0x22 # cs" by blast
    have ws: "skip_ws (s @ CHR ''}'' # rest) = s @ CHR ''}'' # rest"
      using c by (rule skip_ws_first) (simp add: is_ws_def)
    have close: "expect ''}'' (s @ CHR ''}'' # rest) = None"
      using c by (rule expect_first) simp
    from parse_value_dict [OF members ws close] show ?thesis
      by (simp add: t n dict_of_pairs_distinct [OF keys] del: parse_value.simps parse_items.simps parse_members.simps)
  qed
next
  case (7 n)
  then show ?case by simp
next
  case 8
  then show ?case by simp
next
  case (9 v vs)
  from "9.prems" obtain s where s: "json_dumps v = Inr s"
    by (cases "json_dumps v") auto
  from "9.prems" have v: "json_value v" and vs: "json_values vs" by simp_all
  from "9.prems" obtain m where n: "n = Suc m" and m: "length t \<le> m" by (cases n) auto
  show ?case
  proof (cases "vs = []")
    case True
    with "9.prems" s have t: "t = s" by simp
    have "parse_value m (s @ CHR '']'' # rest) = Some (v, CHR '']'' # rest)"
      using m t by (intro "9.IH"(1) [OF v s]) simp_all
    from parse_items_last [OF this] True show ?thesis by (simp add: t n del: parse_value.simps parse_items.simps parse_members.simps)
  next
    case False
    with "9.prems" s obtain r where r: "dumps_items vs = Inr r" and t: "t = s @ '', '' @ r"
      by (cases "dumps_items vs") auto
    have first: "parse_value m (s @ ('', '' @ r @ CHR '']'' # rest)) = Some (v, '', '' @ (r @ CHR '']'' # rest))"
      using m t by (intro "9.IH"(1) [OF v s]) simp_all
    from dumps_items_first [OF r False] obtain c cs where c: "r = c # cs" "\<not> is_ws c"
      by blast
    have ws: "skip_ws (r @ CHR '']'' # rest) = r @ CHR '']'' # rest"
      using c by (rule skip_ws_first)
    have more: "parse_items m (r @ CHR '']'' # rest) = Some (vs, rest)"
      using m t by (intro "9.IH"(2) [OF s False False vs r]) simp
    from parse_items_more [OF first ws more] show ?thesis by (simp add: t n del: parse_value.simps parse_items.simps parse_members.simps)
  qed
next
  case 10
  then show ?case by simp
next
  case (11 kv kvs)
  obtain k v where kv: "kv = (k, v)" by (cases kv)
  from "11.prems" kv obtain s where s: "json_dumps v = Inr s"
    by (cases "json_dumps v") auto
  from "11.prems" kv have v: "json_value v" and kvs: "json_members kvs" by simp_all
  from "11.prems" obtain m where n: "n = Suc m" and m: "length t \<le> m" by (cases n) auto
  from json_dumps_first [OF s] obtain c cs where c: "s = c # cs" "\<not> is_ws c" by blast
  show ?case
  proof (cases "kvs = []")
    case True
    with "11.prems" s kv have t: "t = encode_basestring_ascii k @ '': '' @ s" by simp
    have val: "parse_value m (s @ CHR ''}'' # rest) = Some (v, CHR ''}'' # rest)"
      using m t "11.IH"(1) [of s m "CHR ''}'' # rest"] v s kv by simp
    have ws: "skip_ws (s @ CHR ''}'' # rest) = s @ CHR ''}'' # rest"
      using c by (rule skip_ws_first)
    from parse_members_last [OF val ws, of k] True kv show ?thesis by (simp add: t n del: parse_value.simps parse_items.simps parse_members.simps)
  next
    case False
    with "11.prems" s kv obtain r where r: "dumps_members kvs = Inr r"
      and t: "t = encode_basestring_ascii k @ '': '' @ s @ '', '' @ r"
      by (cases "dumps_members kvs") auto
    have val: "parse_value m (s @ ('', '' @ r @ CHR ''}'' # rest)) = Some (v, '', '' @ (r @ CHR ''}'' # rest))"
      using m t "11.IH"(1) [of s m "'', '' @ r @ CHR ''}'' # rest"] v s kv by simp
    have ws: "skip_ws (s @ ('', '' @ r @ CHR ''}'' # rest)) = s @ ('', '' @ r @ CHR ''}'' # rest)"
      using c by (rule skip_ws_first)
    from dumps_members_first [OF r False] obtain cs' where c': "r = CHR 0x22 # cs'" by blast
    have ws': "skip_ws (r @ CHR ''}'' # rest) = r @ CHR ''}'' # rest"
      using c' by (rule skip_ws_first) (simp add: is_ws_def)
    have more: "parse_members m (r @ CHR ''}'' # rest) = Some (kvs, rest)"
      using m t "11.IH"(2) [of s r m rest] s kv False kvs r by simp
    from parse_members_more [OF val ws ws' more, of k] kv show ?thesis by (simp add: t n del: parse_value.simps parse_items.simps parse_members.simps)
  qed
qed



lemma json_loads_dumps:
  assumes "json_value v" and "json_dumps v = Inr t"
  shows "json_loads t = Some v"
proof -
  from json_dumps_first [OF assms(2)] obtain c cs where c: "t = c # cs" "\<not> is_ws c" by blast
  have ws: "skip_ws t = t" using skip_ws_first [OF c, of "[]"] by simp
  have "parse_value (length t) (t @ []) = Some (v, [])"
    using assms by (rule parse_dumps(1)) simp_all
  then show ?thesis by (simp add: json_loads_def ws skip_ws_Nil)
qed

lemma format_error_response_dumps:
  "json_dumps (PDict [(''error'', PStr m)]) = Inr (format_error_response m)"
  by (simp add: format_error_response_def)

lemma json_loads_error_response:
  "json_loads (format_error_response m) = Some (PDict [(''error'', PStr m)])"
  by (rule json_loads_dumps [OF _ format_error_response_dumps]) simp

lemma error_field_error_response: "error_field (format_error_response m) = Some m"
  by (simp add: error_field_def json_loads_error_response)

section \<open>Payloads of the tools\<close>




section \<open>The error envelope\<close>

lemma try_except_envelope:
  assumes "fst r = Inl e"
  shows "(is_Exception e \<longrightarrow> fst (try_except prefix r) = Inr (format_error_response (prefix @ str_exc e)))
    \<and> (\<forall>payload. fst (try_except prefix r) = Inr payload \<longrightarrow> error_field payload = Some (prefix @ str_exc e))"
  using assms
  by (cases e) (simp_all add: fst_try_except_Exception fst_try_except_BaseException error_field_error_response)

text \<open>
  C5: when the \<^verbatim>\<open>try\<close> suite of a tool raises \<open>e\<close> (from the backend call or from
  \<^verbatim>\<open>json.dumps\<close>), the tool returns the envelope for the tool's prefix followed by
  \<^verbatim>\<open>str(e)\<close> if \<open>e\<close> is an \<^verbatim>\<open>Exception\<close>, and whenever it returns a payload, the
  \<^verbatim>\<open>error\<close> field of that payload is exactly the prefix followed by \<^verbatim>\<open>str(e)\<close>.
\<close>

theorem error_envelope_message:
  "(fst (get_all_mealplans_try mealie start_date end_date page per_page w) = Inl e \<longrightarrow>
      (is_Exception e \<longrightarrow> fst (get_all_mealplans mealie start_date end_date page per_page w)
          = Inr (format_error_response (''Error fetching mealplans: '' @ str_exc e)))
      \<and> (\<forall>payload. fst (get_all_mealplans mealie start_date end_date page per_page w) = Inr payload
          \<longrightarrow> error_field payload = Some (''Error fetching mealplans: '' @ str_exc e)))
   \<and> (fst (create_mealplan_try mealie entry w) = Inl e \<longrightarrow>
      (is_Exception e \<longrightarrow> fst (create_mealplan mealie entry w)
          = Inr (format_error_response (''Error creating mealplan entry: '' @ str_exc e)))
      \<and> (\<forall>payload. fst (create_mealplan mealie entry w) = Inr payload
          \<longrightarrow> error_field payload = Some (''Error creating mealplan entry: '' @ str_exc e)))
   \<and> (fst (create_mealplan_bulk_try mealie entries w) = Inl e \<longrightarrow>
      (is_Exception e \<longrightarrow> fst (create_mealplan_bulk mealie entries w)
          = Inr (format_error_response (''Error creating bulk mealplan entries: '' @ str_exc e)))
      \<and> (\<forall>payload. fst (create_mealplan_bulk mealie entries w) = Inr payload
          \<longrightarrow> error_field payload = Some (''Error creating bulk mealplan entries: '' @ str_exc e)))
   \<and> (fst (get_todays_mealplan_try mealie w) = Inl e \<longrightarrow>
      (is_Exception e \<longrightarrow> fst (get_todays_mealplan mealie w)
          = Inr (format_error_response (''Error fetching today'' @ [CHR 0x27] @ ''s mealplan: '' @ str_exc e)))
      \<and> (\<forall>payload. fst (get_todays_mealplan mealie w) = Inr payload
          \<longrightarrow> error_field payload = Some (''Error fetching today'' @ [CHR 0x27] @ ''s mealplan: '' @ str_exc e)))"
proof (intro conjI impI)
  assume "fst (get_all_mealplans_try mealie start_date end_date page per_page w) = Inl e"
  from try_except_envelope [OF this, of "''Error fetching mealplans: ''"]
  show "is_Exception e \<Longrightarrow> fst (get_all_mealplans mealie start_date end_date page per_page w)
          = Inr (format_error_response (''Error fetching mealplans: '' @ str_exc e))"
    and "\<forall>payload. fst (get_all_mealplans mealie start_date end_date page per_page w) = Inr payload
          \<longrightarrow> error_field payload = Some (''Error fetching mealplans: '' @ str_exc e)"
    unfolding get_all_mealplans_def by blast+
next
  assume "fst (create_mealplan_try mealie entry w) = Inl e"
  from try_except_envelope [OF this, of "''Error creating mealplan entry: ''"]
  show "is_Exception e \<Longrightarrow> fst (create_mealplan mealie entry w)
          = Inr (format_error_response (''Error creating mealplan entry: '' @ str_exc e))"
    and "\<forall>payload. fst (create_mealplan mealie entry w) = Inr payload
          \<longrightarrow> error_field payload = Some (''Error creating mealplan entry: '' @ str_exc e)"
    unfolding create_mealplan_def by blast+
next
  assume "fst (create_mealplan_bulk_try mealie entries w) = Inl e"
  from try_except_envelope [OF this, of "''Error creating bulk mealplan entries: ''"]
  show "is_Exception e \<Longrightarrow> fst (create_mealplan_bulk mealie entries w)
          = Inr (format_error_response (''Error creating bulk mealplan entries: '' @ str_exc e))"
    and "\<forall>payload. fst (create_mealplan_bulk mealie entries w) = Inr payload
          \<longrightarrow> error_field payload = Some (''Error creating bulk mealplan entries: '' @ str_exc e)"
    unfolding create_mealplan_bulk_def by blast+
next
  assume "fst (get_todays_mealplan_try mealie w) = Inl e"
  from try_except_envelope [OF this, of "''Error fetching today'' @ [CHR 0x27] @ ''s mealplan: ''"]
  show "is_Exception e \<Longrightarrow> fst (get_todays_mealplan mealie w)
          = Inr (format_error_response (''Error fetching today'' @ [CHR 0x27] @ ''s mealplan: '' @ str_exc e))"
    and "\<forall>payload. fst (get_todays_mealplan mealie w) = Inr payload
          \<longrightarrow> error_field payload = Some (''Error fetching today'' @ [CHR 0x27] @ ''s mealplan: '' @ str_exc e)"
    unfolding get_todays_mealplan_def by simp_all
qed

lemma raising_try_suites:
  "fst (get_all_mealplans_try (raising e) start_date end_date page per_page w) = Inl e"
  "fst (create_mealplan_try (raising e) entry w) = Inl e"
  "fst (create_mealplan_bulk_try (raising e) (entry # entries) w) = Inl e"
  "fst (get_todays_mealplan_try (raising e) w) = Inl e"
  by (simp_all add: fst_get_all_mealplans_try fst_create_mealplan_try fst_get_todays_mealplan_try
      fst_bulk_try invoke_def raising_def)

theorem error_envelope_message_witness:
  \<open>fst (get_all_mealplans (raising (Exception ''boom'')) None None None None w0)
      = Inr ''{"error": "Error fetching mealplans: boom"}''
   \<and> error_field ''{"error": "Error fetching mealplans: boom"}'' = Some ''Error fetching mealplans: boom''
   \<and> fst (create_mealplan (raising (Exception ''boom'')) (entry_on ''2024-03-01'') w0)
      = Inr ''{"error": "Error creating mealplan entry: boom"}''
   \<and> error_field ''{"error": "Error creating mealplan entry: boom"}'' = Some ''Error creating mealplan entry: boom''
   \<and> fst (create_mealplan_bulk (raising (Exception ''boom'')) [entry_on ''2024-03-01''] w0)
      = Inr ''{"error": "Error creating bulk mealplan entries: boom"}''
   \<and> error_field ''{"error": "Error creating bulk mealplan entries: boom"}''
      = Some ''Error creating bulk mealplan entries: boom''
   \<and> fst (get_todays_mealplan (raising (Exception ''boom'')) w0)
      = Inr (''{"error": "Error fetching today'' @ [CHR 0x27] @ ''s mealplan: boom"}'')
   \<and> error_field (''{"error": "Error fetching today'' @ [CHR 0x27] @ ''s mealplan: boom"}'')
      = Some (''Error fetching today'' @ [CHR 0x27] @ ''s mealplan: boom'')\<close>
proof -
  note general = error_envelope_message [where mealie = "raising (Exception ''boom'')"
      and start_date = None and end_date = None and page = None and per_page = None and w = w0
      and e = "Exception ''boom''" and entry = "entry_on ''2024-03-01''"
      and entries = "[entry_on ''2024-03-01'']"]
  have exc: "is_Exception (Exception ''boom'')" by simp
  note a_try = raising_try_suites(1) [of "Exception ''boom''" None None None None w0]
  from general a_try exc
  have a1: \<open>fst (get_all_mealplans (raising (Exception ''boom'')) None None None None w0)
      = Inr (format_error_response ((''Error fetching mealplans: '') @ str_exc (Exception ''boom'')))\<close>
    by blast
  from general a_try
  have a2: \<open>\<forall>payload. fst (get_all_mealplans (raising (Exception ''boom'')) None None None None w0) = Inr payload
      \<longrightarrow> error_field payload = Some ((''Error fetching mealplans: '') @ str_exc (Exception ''boom''))\<close>
    by blast
  from a1 a2
  have a3: \<open>error_field (format_error_response ((''Error fetching mealplans: '') @ str_exc (Exception ''boom'')))
      = Some ((''Error fetching mealplans: '') @ str_exc (Exception ''boom''))\<close>
    by blast
  have a_lit: \<open>format_error_response ''Error fetching mealplans: boom''
      = ''{"error": "Error fetching mealplans: boom"}''\<close>
    by (simp add: format_error_response_def encode_basestring_ascii_def escape_char_def)
  have a_msg: \<open>(''Error fetching mealplans: '') @ str_exc (Exception ''boom'') = ''Error fetching mealplans: boom''\<close>
    by simp
  from a1 have a: \<open>fst (get_all_mealplans (raising (Exception ''boom'')) None None None None w0) = Inr ''{"error": "Error fetching mealplans: boom"}''\<close>
    unfolding a_msg a_lit .
  from a3 have a': \<open>error_field ''{"error": "Error fetching mealplans: boom"}'' = Some ''Error fetching mealplans: boom''\<close>
    unfolding a_msg a_lit .
  note b_try = raising_try_suites(2) [of "Exception ''boom''" "entry_on ''2024-03-01''" w0]
  from general b_try exc
  have b1: \<open>fst (create_mealplan (raising (Exception ''boom'')) (entry_on ''2024-03-01'') w0)
      = Inr (format_error_response ((''Error creating mealplan entry: '') @ str_exc (Exception ''boom'')))\<close>
    by blast
  from general b_try
  have b2: \<open>\<forall>payload. fst (create_mealplan (raising (Exception ''boom'')) (entry_on ''2024-03-01'') w0) = Inr payload
      \<longrightarrow> error_field payload = Some ((''Error creating mealplan entry: '') @ str_exc (Exception ''boom''))\<close>
    by blast
  from b1 b2
  have b3: \<open>error_field (format_error_response ((''Error creating mealplan entry: '') @ str_exc (Exception ''boom'')))
      = Some ((''Error creating mealplan entry: '') @ str_exc (Exception ''boom''))\<close>
    by blast
  have b_lit: \<open>format_error_response ''Error creating mealplan entry: boom''
      = ''{"error": "Error creating mealplan entry: boom"}''\<close>
    by (simp add: format_error_response_def encode_basestring_ascii_def escape_char_def)
  have b_msg: \<open>(''Error creating mealplan entry: '') @ str_exc (Exception ''boom'') = ''Error creating mealplan entry: boom''\<close>
    by simp
  from b1 have b: \<open>fst (create_mealplan (raising (Exception ''boom'')) (entry_on ''2024-03-01'') w0) = Inr ''{"error": "Error creating mealplan entry: boom"}''\<close>
    unfolding b_msg b_lit .
  from b3 have b': \<open>error_field ''{"error": "Error creating mealplan entry: boom"}'' = Some ''Error creating mealplan entry: boom''\<close>
    unfolding b_msg b_lit .
  note c_try = raising_try_suites(3) [of "Exception ''boom''" "entry_on ''2024-03-01''" "[]" w0]
  from general c_try exc
  have c1: \<open>fst (create_mealplan_bulk (raising (Exception ''boom'')) [entry_on ''2024-03-01''] w0)
      = Inr (format_error_response ((''Error creating bulk mealplan entries: '') @ str_exc (Exception ''boom'')))\<close>
    by blast
  from general c_try
  have c2: \<open>\<forall>payload. fst (create_mealplan_bulk (raising (Exception ''boom'')) [entry_on ''2024-03-01''] w0) = Inr payload
      \<longrightarrow> error_field payload = Some ((''Error creating bulk mealplan entries: '') @ str_exc (Exception ''boom''))\<close>
    by blast
  from c1 c2
  have c3: \<open>error_field (format_error_response ((''Error creating bulk mealplan entries: '') @ str_exc (Exception ''boom'')))
      = Some ((''Error creating bulk mealplan entries: '') @ str_exc (Exception ''boom''))\<close>
    by blast
  have c_lit: \<open>format_error_response ''Error creating bulk mealplan entries: boom''
      = ''{"error": "Error creating bulk mealplan entries: boom"}''\<close>
    by (simp add: format_error_response_def encode_basestring_ascii_def escape_char_def)
  have c_msg: \<open>(''Error creating bulk mealplan entries: '') @ str_exc (Exception ''boom'') = ''Error creating bulk mealplan entries: boom''\<close>
    by simp
  from c1 have c: \<open>fst (create_mealplan_bulk (raising (Exception ''boom'')) [entry_on ''2024-03-01''] w0) = Inr ''{"error": "Error creating bulk mealplan entries: boom"}''\<close>
    unfolding c_msg c_lit .
  from c3 have c': \<open>error_field ''{"error": "Error creating bulk mealplan entries: boom"}'' = Some ''Error creating bulk mealplan entries: boom''\<close>
    unfolding c_msg c_lit .
  note d_try = raising_try_suites(4) [of "Exception ''boom''" w0]
  from general d_try exc
  have d1: \<open>fst (get_todays_mealplan (raising (Exception ''boom'')) w0)
      = Inr (format_error_response (''Error fetching today'' @ [CHR 0x27] @ ''s mealplan: '' @ str_exc (Exception ''boom'')))\<close>
    by blast
  from general d_try
  have d2: \<open>\<forall>payload. fst (get_todays_mealplan (raising (Exception ''boom'')) w0) = Inr payload
      \<longrightarrow> error_field payload = Some (''Error fetching today'' @ [CHR 0x27] @ ''s mealplan: '' @ str_exc (Exception ''boom''))\<close>
    by blast
  from d1 d2
  have d3: \<open>error_field (format_error_response (''Error fetching today'' @ [CHR 0x27] @ ''s mealplan: '' @ str_exc (Exception ''boom'')))
      = Some (''Error fetching today'' @ [CHR 0x27] @ ''s mealplan: '' @ str_exc (Exception ''boom''))\<close>
    by blast
  have d_lit: \<open>format_error_response (''Error fetching today'' @ [CHR 0x27] @ ''s mealplan: boom'')
      = (''{"error": "Error fetching today'' @ [CHR 0x27] @ ''s mealplan: boom"}'')\<close>
    by (simp add: format_error_response_def encode_basestring_ascii_def escape_char_def)
  have d_msg: \<open>''Error fetching today'' @ [CHR 0x27] @ ''s mealplan: '' @ str_exc (Exception ''boom'') = (''Error fetching today'' @ [CHR 0x27] @ ''s mealplan: boom'')\<close>
    by simp
  from d1 have d: \<open>fst (get_todays_mealplan (raising (Exception ''boom'')) w0) = Inr (''{"error": "Error fetching today'' @ [CHR 0x27] @ ''s mealplan: boom"}'')\<close>
    unfolding d_msg d_lit .
  from d3 have d': \<open>error_field (''{"error": "Error fetching today'' @ [CHR 0x27] @ ''s mealplan: boom"}'') = Some (''Error fetching today'' @ [CHR 0x27] @ ''s mealplan: boom'')\<close>
    unfolding d_msg d_lit .
  from a a' b b' c c' d d' show ?thesis by blast
qed








end
